theory Spec2Isabelle
  imports Complex_Main
begin

section \<open>Python values used by the trading core\<close>

text \<open>
  The development follows \<^verbatim>\<open>trading_core.py\<close>. Exceptions of the Python code are values of
  the type \<open>error\<close>; a function that can raise returns \<open>error + 'a\<close> with \<open>Inl\<close> for the
  exception.
\<close>

datatype error = TypeError | ZeroDivisionError | OverflowError

text \<open>
  A \<^verbatim>\<open>datetime.datetime\<close>: the date as its proleptic Gregorian ordinal
  (\<^verbatim>\<open>date.toordinal()\<close>, between 1 and 3652059), the time of day in microseconds since
  midnight, and the UTC offset in minutes of its \<^verbatim>\<open>tzinfo\<close> (\<open>None\<close> for a naive
  datetime, \<open>Some 330\<close> for \<^verbatim>\<open>Asia/Kolkata\<close>).
\<close>

record datetime =
  tzoffset :: "int option"
  ordinal :: int
  micros :: int

definition us_per_day :: int where
  "us_per_day = 86400000000"

definition max_ordinal :: int where
  "max_ordinal = 3652059"

text \<open>\<^verbatim>\<open>datetime.time(9, 15)\<close> and \<^verbatim>\<open>datetime.time(15, 31)\<close> in microseconds since midnight.\<close>

definition market_open :: int where
  "market_open = 33300000000"

definition market_close :: int where
  "market_close = 55860000000"

text \<open>
  \<^verbatim>\<open>datetime.datetime.combine(d.date(), datetime.time(9, 15))\<close>: the time carries no
  \<^verbatim>\<open>tzinfo\<close>, so the result is naive whatever \<open>d\<close> is.
\<close>

definition combine_0915 :: "datetime \<Rightarrow> datetime" where
  "combine_0915 d = \<lparr>tzoffset = None, ordinal = ordinal d, micros = market_open\<rparr>"

text \<open>
  The instant of a datetime in microseconds: local wall time for a naive one, UTC for an
  aware one.
\<close>

definition instant :: "datetime \<Rightarrow> int" where
  "instant d =
     ordinal d * us_per_day + micros d
       - (case tzoffset d of None \<Rightarrow> 0 | Some off \<Rightarrow> off * 60000000)"

text \<open>
  \<^verbatim>\<open>(a - b)\<close> on datetimes, as the timedelta's exact number of microseconds. Python raises
  \<^verbatim>\<open>TypeError: can't subtract offset-naive and offset-aware datetimes\<close> when exactly one
  operand has a \<^verbatim>\<open>tzinfo\<close>.
\<close>

definition dt_sub :: "datetime \<Rightarrow> datetime \<Rightarrow> error + int" where
  "dt_sub a b =
     (if (tzoffset a = None) \<noteq> (tzoffset b = None) then Inl TypeError
      else Inr (instant a - instant b))"

text \<open>
  \<^verbatim>\<open>a >= b\<close> on datetimes; mixing a naive and an aware operand raises \<^verbatim>\<open>TypeError\<close>.
\<close>

definition dt_ge :: "datetime \<Rightarrow> datetime \<Rightarrow> error + bool" where
  "dt_ge a b =
     (if (tzoffset a = None) \<noteq> (tzoffset b = None) then Inl TypeError
      else Inr (instant b \<le> instant a))"

text \<open>
  \<^verbatim>\<open>d + datetime.timedelta(minutes=m)\<close>. The timedelta constructor and the addition both
  raise \<^verbatim>\<open>OverflowError\<close> when the result leaves the range of dates; a datetime in range
  plus a timedelta out of range is out of range, so one check covers both.
\<close>

definition dt_add_minutes :: "datetime \<Rightarrow> int \<Rightarrow> error + datetime" where
  "dt_add_minutes d m =
     (let t = ordinal d * us_per_day + micros d + m * 60000000;
          day = t div us_per_day
      in if day < 1 \<or> max_ordinal < day then Inl OverflowError
         else Inr (d\<lparr>ordinal := day, micros := t mod us_per_day\<rparr>))"

text \<open>\<^verbatim>\<open>d.replace(microsecond=0)\<close>.\<close>

definition replace_microsecond_0 :: "datetime \<Rightarrow> datetime" where
  "replace_microsecond_0 d = d\<lparr>micros := micros d - micros d mod 1000000\<rparr>"

text \<open>
  Python converts an \<^verbatim>\<open>int\<close> to \<^verbatim>\<open>float\<close> for \<^verbatim>\<open>elapsed // (interval_minutes * 60)\<close>
  and raises \<^verbatim>\<open>OverflowError\<close> from \<open>2^1024 - 2^970\<close> on (the first integer that rounds
  to \<open>2^1024\<close>).
\<close>

definition float_overflows :: "int \<Rightarrow> bool" where
  "float_overflows n \<longleftrightarrow> 2 ^ 1024 - 2 ^ 970 \<le> \<bar>n\<bar>"

section \<open>The interval clock\<close>

text \<open>
  \<^verbatim>\<open>_round_to_next_interval(interval_minutes, now_dt)\<close>, lines 44 to 57.

  \<^verbatim>\<open>elapsed\<close> is \<^verbatim>\<open>total_seconds()\<close>, a float; it is kept here as the exact number of
  microseconds. Both datetimes are on the same date, so \<open>\<bar>elapsed\<bar> < 86400\<close> seconds, where
  doubles are spaced less than \<open>10^-10\<close> apart while multiples of a microsecond are \<open>10^-6\<close>
  apart: the sign test and the floor division (\<^verbatim>\<open>//\<close> on floats is the exact floor of the
  quotient of its operands, and \<^verbatim>\<open>int\<close> of an integral float is that integer) give the
  same results on the float as on the exact value. Integer \<open>div\<close> in HOL is floor division.
\<close>

definition round_to_next_interval :: "int \<Rightarrow> datetime \<Rightarrow> error + datetime" where
  "round_to_next_interval interval_minutes now_dt =
     (let base = combine_0915 now_dt
      in case dt_sub now_dt base of
           Inl e \<Rightarrow> Inl e
         | Inr elapsed \<Rightarrow>
             if elapsed < 0 then Inr (replace_microsecond_0 base)
             else if float_overflows (interval_minutes * 60) then Inl OverflowError
             else if interval_minutes = 0 then Inl ZeroDivisionError
             else
               let intervals_passed = elapsed div (interval_minutes * 60 * 1000000)
               in (case dt_add_minutes base ((intervals_passed + 1) * interval_minutes) of
                     Inl e \<Rightarrow> Inl e
                   | Inr next_interval \<Rightarrow> Inr (replace_microsecond_0 next_interval)))"

section \<open>The trend-following band\<close>

text \<open>
  \<^verbatim>\<open>calculate_supertrend\<close>, lines 61 to 86. The three lists the loop works on: the
  bullish flags \<^verbatim>\<open>supertrend_values\<close> and the copies \<^verbatim>\<open>final_upperband\<close> and
  \<^verbatim>\<open>final_lowerband\<close>, updated in place. The loop only compares and copies numbers, so
  on floats without NaN (the average true range of the \<^verbatim>\<open>ta\<close> library starts with zeros,
  not NaN) it behaves as on the reals.
\<close>

record bands =
  supertrend_values :: "bool list"
  final_upperband :: "real list"
  final_lowerband :: "real list"

text \<open>The body of the loop at index \<open>i\<close> (lines 73 to 83).\<close>

definition supertrend_iter :: "real list \<Rightarrow> nat \<Rightarrow> bands \<Rightarrow> bands" where
  "supertrend_iter close i b =
     (if close ! i > final_upperband b ! (i - 1) then
        b\<lparr>supertrend_values := (supertrend_values b)[i := True]\<rparr>
      else if close ! i < final_lowerband b ! (i - 1) then
        b\<lparr>supertrend_values := (supertrend_values b)[i := False]\<rparr>
      else
        let b1 = b\<lparr>supertrend_values := (supertrend_values b)[i := supertrend_values b ! (i - 1)]\<rparr>;
            b2 = (if supertrend_values b1 ! i \<and> final_lowerband b1 ! i < final_lowerband b1 ! (i - 1)
                  then b1\<lparr>final_lowerband := (final_lowerband b1)[i := final_lowerband b1 ! (i - 1)]\<rparr>
                  else b1);
            b3 = (if \<not> supertrend_values b2 ! i \<and> final_upperband b2 ! i > final_upperband b2 ! (i - 1)
                  then b2\<lparr>final_upperband := (final_upperband b2)[i := final_upperband b2 ! (i - 1)]\<rparr>
                  else b2)
        in b3)"

text \<open>Lines 68 to 70: bullish by default, the final bands start as copies of the raw bands.\<close>

definition supertrend_init :: "nat \<Rightarrow> real list \<Rightarrow> real list \<Rightarrow> bands" where
  "supertrend_init n upperband lowerband =
     \<lparr>supertrend_values = replicate n True, final_upperband = upperband, final_lowerband = lowerband\<rparr>"

text \<open>Line 72: \<^verbatim>\<open>for i in range(1, len(df))\<close>.\<close>

definition supertrend_bands :: "real list \<Rightarrow> real list \<Rightarrow> real list \<Rightarrow> bands" where
  "supertrend_bands close upperband lowerband =
     fold (supertrend_iter close) [1..<length close]
       (supertrend_init (length close) upperband lowerband)"

text \<open>Line 85: the reported band value of every row (the integer subscripts of line 85
  read the series by position).\<close>

definition supertrend_column :: "bands \<Rightarrow> real list" where
  "supertrend_column b =
     map (\<lambda>i. if supertrend_values b ! i then final_lowerband b ! i else final_upperband b ! i)
       [0..<length (supertrend_values b)]"

text \<open>
  Lines 63 to 66 and 85 together. The average true range comes from the \<^verbatim>\<open>ta\<close> library and
  is a parameter; the arithmetic of the raw bands is float arithmetic in the source and
  real arithmetic here.
\<close>

definition calculate_supertrend ::
  "real list \<Rightarrow> real list \<Rightarrow> real list \<Rightarrow> real list \<Rightarrow> real \<Rightarrow> real list" where
  "calculate_supertrend high low close atr multiplier =
     (let hl2 = map2 (\<lambda>h l. (h + l) / 2) high low;
          upperband = map2 (\<lambda>m a. m + multiplier * a) hl2 atr;
          lowerband = map2 (\<lambda>m a. m - multiplier * a) hl2 atr
      in supertrend_column (supertrend_bands close upperband lowerband))"


section \<open>The signal evaluation of one cycle\<close>

text \<open>
  The latest indicator row as lines 387 to 394 read it. The row has passed
  \<^verbatim>\<open>dropna\<close>, so none of its values is NaN and the comparisons are those of the reals.
\<close>

record indicator_row =
  latest_adx :: real
  latest_adxema :: real
  latest_willr :: real
  latest_supertrend :: real
  latest_macd :: real
  latest_macd_signal :: real
  close_price :: real

text \<open>A position of the snapshot: the three keys the core reads.\<close>

record position =
  quantity :: int
  tradingsymbol :: string
  instrument_token :: string

text \<open>The dictionary \<^verbatim>\<open>get_option_instrument_key\<close> returns.\<close>

record option_details =
  instrument_key :: string
  lot_size :: int
  strike :: int
  expiry_date :: int

text \<open>A candle of a buffer; \<open>candle_datetime\<close> is the instant of its timezone-aware
  timestamp in microseconds (lines 221, 236 and 287 localize naive timestamps, the adapter's
  1-minute candle carries \<^verbatim>\<open>tz=ist\<close>), and aware timestamps compare by instant.\<close>

record candle =
  candle_datetime :: int
  candle_open :: real
  candle_high :: real
  candle_low :: real
  candle_close :: real

text \<open>
  What the session does to the outside world, in order. Calls of the logger are not
  recorded. \<open>Telegram\<close> is \<^verbatim>\<open>send_telegram_message_async\<close> with the message it sends,
  \<open>UpdatePnl\<close> is \<^verbatim>\<open>update_pnl_in_excel_async\<close> with its number, \<open>Sleep\<close> is
  \<^verbatim>\<open>asyncio.sleep\<close>; the others are the calls of the broker adapter and of the order log.
\<close>

datatype side = BUY | SELL

datatype message =
    HistoricalAbort | NotEnoughData | EmptyCandleBuffer | SessionStarted | MarketClosed
  | BuySignalGenerated | SellSignalGenerated | ExitTriggered string

datatype event =
    Telegram message
  | LogOrderToExcel string string real int int string int int
  | UpdatePnl nat
  | Sleep nat
  | FetchHistoricalData int
  | FetchIntradayData int
  | FetchOhlc1minData
  | FetchPositions
  | GetOptionInstrumentKey real string
  | PlaceOrder string int side real

text \<open>
  The broker adapter. The broker is outside the program and has a state of its own, so each
  of its answers is a function of everything the session has done before the call (the
  events so far).
\<close>

record broker_adapter =
  fetch_historical_data :: "event list \<Rightarrow> candle list"
  fetch_intraday_data :: "event list \<Rightarrow> int \<Rightarrow> candle list option"
  fetch_ohlc_1min_data :: "event list \<Rightarrow> candle option"
  fetch_positions :: "event list \<Rightarrow> position list"
  get_option_instrument_key :: "event list \<Rightarrow> real \<Rightarrow> string \<Rightarrow> option_details option"

text \<open>\<^verbatim>\<open>s.endswith(suffix)\<close> and \<^verbatim>\<open>s[-2:]\<close> (the whole string when it is shorter than 2).\<close>

definition endswith :: "string \<Rightarrow> string \<Rightarrow> bool" where
  "endswith s suffix \<longleftrightarrow>
     length suffix \<le> length s \<and> drop (length s - length suffix) s = suffix"

definition last_two :: "string \<Rightarrow> string" where
  "last_two s = drop (length s - 2) s"

text \<open>Lines 402 to 405.\<close>

definition buy_signal :: "indicator_row \<Rightarrow> bool" where
  "buy_signal r \<longleftrightarrow>
     latest_adx r > latest_adxema r \<and> latest_willr r > - 30 \<and>
     latest_supertrend r < close_price r \<and> latest_macd r > latest_macd_signal r"

definition sell_signal :: "indicator_row \<Rightarrow> bool" where
  "sell_signal r \<longleftrightarrow>
     latest_adx r > latest_adxema r \<and> latest_willr r < - 70 \<and>
     latest_supertrend r > close_price r \<and> latest_macd r < latest_macd_signal r"

text \<open>Lines 410 to 411 and 433 to 434.\<close>

definition has_ce_position :: "position list \<Rightarrow> bool" where
  "has_ce_position positions \<longleftrightarrow>
     (\<exists>pos \<in> set positions. quantity pos > 0 \<and> endswith (tradingsymbol pos) ''CE'')"

definition has_pe_position :: "position list \<Rightarrow> bool" where
  "has_pe_position positions \<longleftrightarrow>
     (\<exists>pos \<in> set positions. quantity pos > 0 \<and> endswith (tradingsymbol pos) ''PE'')"

text \<open>
  Lines 413 to 427 and 436 to 450: resolve the option instrument and, if the adapter
  returned one, place the order and log it. \<open>hist\<close> is the list of events before the call.
\<close>

definition place_entry ::
  "broker_adapter \<Rightarrow> event list \<Rightarrow> int \<Rightarrow> indicator_row \<Rightarrow> string \<Rightarrow> event list" where
  "place_entry br hist lots r option_type =
     GetOptionInstrumentKey (close_price r) option_type #
     (case get_option_instrument_key br hist (close_price r) option_type of
        Some option_details \<Rightarrow>
          [PlaceOrder (instrument_key option_details) (lots * lot_size option_details) BUY
             (close_price r),
           LogOrderToExcel ''BUY'' (instrument_key option_details) (close_price r) lots
             (strike option_details) option_type (lot_size option_details)
             (expiry_date option_details)]
      | None \<Rightarrow> [])"

text \<open>Lines 407 to 454: the entry decision on the snapshot \<open>positions\<close>.\<close>

definition entry_events ::
  "broker_adapter \<Rightarrow> event list \<Rightarrow> int \<Rightarrow> indicator_row \<Rightarrow> position list \<Rightarrow> event list" where
  "entry_events br hist lots r positions =
     (if buy_signal r then
        Telegram BuySignalGenerated #
        (if \<not> has_ce_position positions
         then place_entry br (hist @ [Telegram BuySignalGenerated]) lots r ''CE''
         else [])
      else if sell_signal r then
        Telegram SellSignalGenerated #
        (if \<not> has_pe_position positions
         then place_entry br (hist @ [Telegram SellSignalGenerated]) lots r ''PE''
         else [])
      else [])"

text \<open>Lines 464 to 473.\<close>

definition exit_ce :: "indicator_row \<Rightarrow> string \<Rightarrow> bool" where
  "exit_ce r option_type \<longleftrightarrow>
     option_type = ''CE'' \<and>
     ((latest_willr r < - 70 \<and> latest_supertrend r > close_price r) \<or>
      (latest_willr r < - 70 \<and> latest_macd r < latest_macd_signal r) \<or>
      (latest_supertrend r > close_price r \<and> latest_macd r < latest_macd_signal r))"

definition exit_pe :: "indicator_row \<Rightarrow> string \<Rightarrow> bool" where
  "exit_pe r option_type \<longleftrightarrow>
     option_type = ''PE'' \<and>
     ((latest_willr r > - 30 \<and> latest_supertrend r < close_price r) \<or>
      (latest_willr r > - 30 \<and> latest_macd r > latest_macd_signal r) \<or>
      (latest_supertrend r < close_price r \<and> latest_macd r < latest_macd_signal r))"

text \<open>Lines 458 to 475 for one position: is it closed in this cycle?\<close>

definition exit_fires :: "indicator_row \<Rightarrow> position \<Rightarrow> bool" where
  "exit_fires r pos \<longleftrightarrow>
     quantity pos > 0 \<and>
     (exit_ce r (last_two (tradingsymbol pos)) \<or> exit_pe r (last_two (tradingsymbol pos)))"

text \<open>Lines 476 to 480: what closing one position does.\<close>

definition close_position :: "position \<Rightarrow> event list" where
  "close_position pos =
     [Telegram (ExitTriggered (tradingsymbol pos)),
      PlaceOrder (instrument_token pos) (quantity pos) SELL 0,
      UpdatePnl 2]"

text \<open>Lines 457 to 480: \<^verbatim>\<open>for pos in positions\<close>.\<close>

fun exit_events :: "indicator_row \<Rightarrow> position list \<Rightarrow> event list" where
  "exit_events r [] = []"
| "exit_events r (pos # rest) =
     (if exit_fires r pos then close_position pos else []) @ exit_events r rest"

text \<open>
  Lines 400 to 480, run when at least two indicator rows are left: one call of
  \<^verbatim>\<open>fetch_positions\<close>, the entry decision, then the exit loop over the same list.
\<close>

definition evaluate_signals ::
  "broker_adapter \<Rightarrow> event list \<Rightarrow> int \<Rightarrow> indicator_row \<Rightarrow> event list" where
  "evaluate_signals br hist lots r =
     (let positions = fetch_positions br hist;
          entry = entry_events br (hist @ [FetchPositions]) lots r positions
      in FetchPositions # entry @ exit_events r positions)"

text \<open>Is the event an order, and of which side?\<close>

fun is_order :: "side \<Rightarrow> event \<Rightarrow> bool" where
  "is_order sd (PlaceOrder tok qty sd' price) = (sd = sd')"
| "is_order sd _ = False"

section \<open>The candle buffers and one pass of the live loop\<close>

text \<open>\<^verbatim>\<open>deque(maxlen=2000).append(x)\<close>: the oldest entries leave when the deque is full.\<close>

definition deque_append :: "'a list \<Rightarrow> 'a \<Rightarrow> 'a list" where
  "deque_append buf x = (let b = buf @ [x] in drop (length b - 2000) b)"

text \<open>
  The computations of \<^verbatim>\<open>pandas\<close> and \<^verbatim>\<open>ta\<close>, taken as parameters: \<open>resample\<close> is lines
  345 to 353 (the OHLC aggregation of the live buffer with \<^verbatim>\<open>dropna\<close>), \<open>indicators\<close> is
  the indicator pipeline of lines 249 to 260 and 374 to 384 (the rows left after
  \<^verbatim>\<open>dropna\<close> and the 25-day filter).
\<close>

record frames =
  resample :: "int \<Rightarrow> candle list \<Rightarrow> candle list"
  indicators :: "candle list \<Rightarrow> indicator_row list"

text \<open>The variables the live loop carries from pass to pass.\<close>

record session =
  candle_buffer :: "candle list"
  live_buffer :: "candle list"
  prev_time :: int
  next_interval_end_1min :: datetime
  next_resample_interval_end :: datetime

text \<open>How a pass ends: the loop goes on, or \<^verbatim>\<open>break\<close> at market close.\<close>

datatype outcome = Continue | Break

text \<open>Lines 329 to 335: the guarded append of the latest 1-minute candle.\<close>

definition append_live_candle :: "session \<Rightarrow> candle \<Rightarrow> session" where
  "append_live_candle s candle =
     (if live_buffer s = [] \<or> candle_datetime candle > candle_datetime (last (live_buffer s))
      then s\<lparr>live_buffer := deque_append (live_buffer s) candle\<rparr>
      else s)"

text \<open>Lines 355 to 371: the resampled candles newer than \<^verbatim>\<open>prev_time\<close> go to the main buffer.\<close>

definition append_main_candles :: "session \<Rightarrow> candle list \<Rightarrow> session" where
  "append_main_candles s resampled =
     (if resampled \<noteq> [] then
        let new_main_candles = filter (\<lambda>c. candle_datetime c > prev_time s) resampled;
            s1 = s\<lparr>candle_buffer := foldl deque_append (candle_buffer s) new_main_candles\<rparr>
        in if new_main_candles \<noteq> []
           then s1\<lparr>prev_time := candle_datetime (last new_main_candles)\<rparr>
           else s1
      else s)"

text \<open>
  Lines 343 to 483, the body of the resample branch. The result is the list of events and
  either the exception that ended the pass or the session after it.
\<close>

definition resample_branch ::
  "frames \<Rightarrow> broker_adapter \<Rightarrow> int \<Rightarrow> int \<Rightarrow> event list \<Rightarrow> datetime \<Rightarrow> session
     \<Rightarrow> event list \<times> (error + session)" where
  "resample_branch fr br interval lots hist now s =
     (let s1 = append_main_candles s (resample fr interval (live_buffer s));
          evs = UpdatePnl 1 #
            (if length (candle_buffer s1) \<ge> 2 then
               (let df_filtered = indicators fr (candle_buffer s1)
                in if length df_filtered \<ge> 2
                   then evaluate_signals br (hist @ [UpdatePnl 1]) lots (last df_filtered)
                   else [])
             else [])
      in (evs,
          case round_to_next_interval interval now of
            Inl e \<Rightarrow> Inl e
          | Inr t \<Rightarrow> Inr (s1\<lparr>next_resample_interval_end := t\<rparr>)))"

text \<open>
  Lines 342 to 485: the test of the resample boundary, the branch, and the closing
  \<^verbatim>\<open>asyncio.sleep(5)\<close>. \<open>evs0\<close> are the events of the pass so far.
\<close>

definition resample_part ::
  "frames \<Rightarrow> broker_adapter \<Rightarrow> int \<Rightarrow> int \<Rightarrow> event list \<Rightarrow> datetime \<Rightarrow> event list \<Rightarrow> session
     \<Rightarrow> event list \<times> (error + outcome \<times> session)" where
  "resample_part fr br interval lots hist now evs0 s =
     (case dt_ge now (next_resample_interval_end s) of
        Inl e \<Rightarrow> (evs0, Inl e)
      | Inr reached \<Rightarrow>
          if reached \<and> int (length (live_buffer s)) \<ge> interval then
            (case resample_branch fr br interval lots (hist @ evs0) now s of
               (evs, Inl e) \<Rightarrow> (evs0 @ evs, Inl e)
             | (evs, Inr s') \<Rightarrow> (evs0 @ evs @ [Sleep 5], Inr (Continue, s')))
          else (evs0 @ [Sleep 5], Inr (Continue, s)))"

text \<open>
  Lines 317 to 485, one pass of \<^verbatim>\<open>while True\<close>. \<open>now\<close> is the clock reading of line 317,
  \<open>hist\<close> the events of the session before the pass.
\<close>

definition live_pass ::
  "frames \<Rightarrow> broker_adapter \<Rightarrow> int \<Rightarrow> int \<Rightarrow> event list \<Rightarrow> datetime \<Rightarrow> session
     \<Rightarrow> event list \<times> (error + outcome \<times> session)" where
  "live_pass fr br interval lots hist now s =
     (if micros now \<ge> market_close then
        ([Telegram MarketClosed, UpdatePnl 2], Inr (Break, s))
      else
        case dt_ge now (next_interval_end_1min s) of
          Inl e \<Rightarrow> ([], Inl e)
        | Inr minute_reached \<Rightarrow>
            if minute_reached then
              (case fetch_ohlc_1min_data br hist of
                 Some candle \<Rightarrow>
                   (case round_to_next_interval 1 now of
                      Inl e \<Rightarrow> ([FetchOhlc1minData], Inl e)
                    | Inr t \<Rightarrow>
                        resample_part fr br interval lots hist now [FetchOhlc1minData]
                          ((append_live_candle s candle)\<lparr>next_interval_end_1min := t\<rparr>))
               | None \<Rightarrow> ([FetchOhlc1minData, Sleep 5], Inr (Continue, s)))
            else resample_part fr br interval lots hist now [] s)"

section \<open>Initialization and the whole session\<close>

text \<open>
  Lines 205 to 273: the historical fetch, the first population of both buffers and the
  first indicator computation. \<open>None\<close> is the \<^verbatim>\<open>return\<close> of an abort; otherwise the two
  buffers. \<open>today\<close> is the ordinal of \<^verbatim>\<open>datetime.date.today()\<close>, \<open>now\<close> the clock reading of
  line 230.
\<close>

definition initial_data ::
  "frames \<Rightarrow> broker_adapter \<Rightarrow> int \<Rightarrow> int \<Rightarrow> datetime
     \<Rightarrow> event list \<times> (candle list \<times> candle list) option" where
  "initial_data fr br interval today now =
     (let e0 = [LogOrderToExcel ''first'' ''first'' 0 0 0 ''first'' 0 today];
          historical_df = fetch_historical_data br e0;
          e1 = e0 @ [FetchHistoricalData interval]
      in if historical_df = [] then (e1 @ [Telegram HistoricalAbort], None)
         else
           let main_buf = foldl deque_append [] historical_df;
               e2 = (if micros now > market_open then e1 @ [FetchIntradayData interval] else e1);
               live_buf =
                 (if micros now > market_open then
                    (case fetch_intraday_data br e1 interval of
                       Some intraday_df \<Rightarrow> foldl deque_append [] intraday_df
                     | None \<Rightarrow> [])
                  else [])
           in if main_buf \<noteq> [] then
                if length (indicators fr main_buf) \<ge> 2
                then (e2, Some (main_buf, live_buf))
                else (e2 @ [Telegram NotEnoughData], None)
              else (e2 @ [Telegram EmptyCandleBuffer], None))"

text \<open>
  Lines 282 to 296: the 1-minute candles of the day so far are appended to the live buffer,
  after whatever lines 235 to 243 have put there. \<open>now\<close> is the clock reading of line 282.
\<close>

definition populate_live_1min ::
  "broker_adapter \<Rightarrow> event list \<Rightarrow> datetime \<Rightarrow> candle list \<Rightarrow> event list \<times> candle list" where
  "populate_live_1min br hist now live_buf =
     (if micros now > market_open then
        ([FetchIntradayData 1],
         case fetch_intraday_data br hist 1 of
           Some intraday_live_1min \<Rightarrow> foldl deque_append live_buf intraday_live_1min
         | None \<Rightarrow> live_buf)
      else ([], live_buf))"

text \<open>The timezone-aware datetime in \<^verbatim>\<open>Asia/Kolkata\<close> (UTC+05:30) of an instant.\<close>

definition ist_datetime :: "int \<Rightarrow> datetime" where
  "ist_datetime t =
     (let local = t + 330 * 60000000
      in \<lparr>tzoffset = Some 330, ordinal = local div us_per_day, micros = local mod us_per_day\<rparr>)"

text \<open>Lines 298 to 300: the two boundaries the loop starts with.\<close>

definition initial_boundaries :: "int \<Rightarrow> datetime \<Rightarrow> int \<Rightarrow> error + datetime \<times> datetime" where
  "initial_boundaries interval now_current last_time =
     (case round_to_next_interval 1 now_current of
        Inl e \<Rightarrow> Inl e
      | Inr b1 \<Rightarrow>
          (case round_to_next_interval interval (ist_datetime last_time) of
             Inl e \<Rightarrow> Inl e
           | Inr b2 \<Rightarrow> Inr (b1, b2)))"

text \<open>Lines 308 to 311: wait for the market to open, one clock reading per test.\<close>

fun wait_for_open :: "datetime list \<Rightarrow> event list \<times> datetime list option" where
  "wait_for_open [] = ([], None)"
| "wait_for_open (now # clock) =
     (if micros now < market_open
      then (case wait_for_open clock of (evs, r) \<Rightarrow> (Sleep 10 # evs, r))
      else ([], Some clock))"

text \<open>
  How a run of the session ends: \<open>Aborted\<close> is the \<^verbatim>\<open>return\<close> of an initialization abort,
  \<open>Closed\<close> the end at market close, \<open>Raised\<close> an exception that leaves the function,
  \<open>Running\<close> a session still in one of its loops when the clock readings given are used up.
\<close>

datatype status = Aborted | Closed | Raised error | Running

text \<open>Lines 316 to 485: the live loop, one clock reading per pass.\<close>

fun live_loop ::
  "frames \<Rightarrow> broker_adapter \<Rightarrow> int \<Rightarrow> int \<Rightarrow> event list \<Rightarrow> datetime list \<Rightarrow> session
     \<Rightarrow> event list \<times> status" where
  "live_loop fr br interval lots hist [] s = (hist, Running)"
| "live_loop fr br interval lots hist (now # clock) s =
     (case live_pass fr br interval lots hist now s of
        (evs, Inl e) \<Rightarrow> (hist @ evs, Raised e)
      | (evs, Inr (Break, s')) \<Rightarrow> (hist @ evs, Closed)
      | (evs, Inr (Continue, s')) \<Rightarrow> live_loop fr br interval lots (hist @ evs) clock s')"

text \<open>
  \<^verbatim>\<open>start_trading_session\<close>, lines 192 to 485. \<open>now_a\<close>, \<open>now_b\<close> and \<open>now_c\<close> are the clock
  readings of lines 230, 282 and 298, \<open>clock\<close> those of the two loops. The result is
  everything the session did and how it ended.
\<close>

definition start_trading_session ::
  "frames \<Rightarrow> broker_adapter \<Rightarrow> int \<Rightarrow> int \<Rightarrow> int \<Rightarrow> datetime \<Rightarrow> datetime \<Rightarrow> datetime
     \<Rightarrow> datetime list \<Rightarrow> event list \<times> status" where
  "start_trading_session fr br interval lots today now_a now_b now_c clock =
     (case initial_data fr br interval today now_a of
        (evs, None) \<Rightarrow> (evs, Aborted)
      | (evs, Some (main_buf, live_buf0)) \<Rightarrow>
          let last_time = candle_datetime (last main_buf);
              (evs1, live_buf) = populate_live_1min br evs now_b live_buf0
          in (case initial_boundaries interval now_c last_time of
                Inl e \<Rightarrow> (evs @ evs1, Raised e)
              | Inr (b1, b2) \<Rightarrow>
                  (case wait_for_open clock of
                     (evs2, None) \<Rightarrow> (evs @ evs1 @ [Telegram SessionStarted] @ evs2, Running)
                   | (evs2, Some clock') \<Rightarrow>
                       live_loop fr br interval lots
                         (evs @ evs1 @ [Telegram SessionStarted] @ evs2) clock'
                         \<lparr>candle_buffer = main_buf, live_buffer = live_buf,
                          prev_time = last_time, next_interval_end_1min = b1,
                          next_resample_interval_end = b2\<rparr>)))"

section \<open>Example inputs\<close>

text \<open>Indicator rows: one with the call entry conditions, one with the put entry
  conditions, and one where only the third clause of the put exit holds.\<close>

definition call_row :: indicator_row where
  "call_row = \<lparr>latest_adx = 30, latest_adxema = 25, latest_willr = - 20,
     latest_supertrend = 21900, latest_macd = 5, latest_macd_signal = 3, close_price = 22000\<rparr>"

definition put_row :: indicator_row where
  "put_row = \<lparr>latest_adx = 30, latest_adxema = 25, latest_willr = - 80,
     latest_supertrend = 22100, latest_macd = - 5, latest_macd_signal = - 3, close_price = 22000\<rparr>"

definition third_clause_row :: indicator_row where
  "third_clause_row = \<lparr>latest_adx = 20, latest_adxema = 25, latest_willr = - 50,
     latest_supertrend = 21900, latest_macd = - 5, latest_macd_signal = - 3, close_price = 22000\<rparr>"

definition ce_position :: position where
  "ce_position = \<lparr>quantity = 75, tradingsymbol = ''NIFTY24JAN22000CE'',
     instrument_token = ''NSE_FO|101''\<rparr>"

definition pe_position :: position where
  "pe_position = \<lparr>quantity = 75, tradingsymbol = ''NIFTY24JAN22000PE'',
     instrument_token = ''NSE_FO|102''\<rparr>"

definition example_details :: option_details where
  "example_details = \<lparr>instrument_key = ''NSE_FO|100'', lot_size = 75, strike = 22000,
     expiry_date = 738911\<rparr>"

text \<open>A broker that always gives the same answers.\<close>

definition example_broker ::
  "candle list \<Rightarrow> candle list option \<Rightarrow> candle option \<Rightarrow> position list \<Rightarrow> broker_adapter" where
  "example_broker historical intraday minute positions =
     \<lparr>fetch_historical_data = (\<lambda>hist. historical),
      fetch_intraday_data = (\<lambda>hist interval. intraday),
      fetch_ohlc_1min_data = (\<lambda>hist. minute),
      fetch_positions = (\<lambda>hist. positions),
      get_option_instrument_key = (\<lambda>hist spot option_type. Some example_details)\<rparr>"

text \<open>2024-01-01 at the given hour and minute in \<^verbatim>\<open>Asia/Kolkata\<close>.\<close>

definition at_ist :: "int \<Rightarrow> int \<Rightarrow> datetime" where
  "at_ist h m = \<lparr>tzoffset = Some 330, ordinal = 738886, micros = (h * 60 + m) * 60000000\<rparr>"

definition example_candle :: "datetime \<Rightarrow> candle" where
  "example_candle d = \<lparr>candle_datetime = instant d, candle_open = 22000, candle_high = 22010,
     candle_low = 21990, candle_close = 22005\<rparr>"

text \<open>Data frame computations that always give the same results.\<close>

definition example_frames :: "candle list \<Rightarrow> indicator_row list \<Rightarrow> frames" where
  "example_frames resampled rows =
     \<lparr>resample = (\<lambda>interval buf. resampled), indicators = (\<lambda>buf. rows)\<rparr>"

text \<open>A session at 09:30 with a 5-minute interval: two main candles, five 1-minute candles,
  both boundaries at 09:30.\<close>

definition example_session :: session where
  "example_session =
     \<lparr>candle_buffer = [example_candle (at_ist 9 15), example_candle (at_ist 9 20)],
      live_buffer = [example_candle (at_ist 9 25), example_candle (at_ist 9 26),
        example_candle (at_ist 9 27), example_candle (at_ist 9 28), example_candle (at_ist 9 29)],
      prev_time = instant (at_ist 9 20),
      next_interval_end_1min = at_ist 9 30,
      next_resample_interval_end = at_ist 9 30\<rparr>"

text \<open>2024-01-01 at the given hour and minute as a naive datetime, and a session whose
  boundaries are naive: the 1-minute boundary at 09:30, the resample boundary at 09:35.\<close>

definition at_naive :: "int \<Rightarrow> int \<Rightarrow> datetime" where
  "at_naive h m = \<lparr>tzoffset = None, ordinal = 738886, micros = (h * 60 + m) * 60000000\<rparr>"

definition naive_session :: session where
  "naive_session =
     \<lparr>candle_buffer = [example_candle (at_ist 9 15), example_candle (at_ist 9 20)],
      live_buffer = [example_candle (at_ist 9 25), example_candle (at_ist 9 26),
        example_candle (at_ist 9 27), example_candle (at_ist 9 28)],
      prev_time = instant (at_ist 9 20),
      next_interval_end_1min = at_naive 9 30,
      next_resample_interval_end = at_naive 9 35\<rparr>"

text \<open>A broker on 2024-01-01 with a 5-minute interval: the last two historical candles of
  the day before, and intraday candles from 09:15 on, at the interval asked for.\<close>

definition intraday_broker :: broker_adapter where
  "intraday_broker =
     \<lparr>fetch_historical_data = (\<lambda>hist.
         [example_candle ((at_ist 15 20)\<lparr>ordinal := 738885\<rparr>),
          example_candle ((at_ist 15 25)\<lparr>ordinal := 738885\<rparr>)]),
      fetch_intraday_data = (\<lambda>hist interval.
         if interval = 1
         then Some [example_candle (at_ist 9 15), example_candle (at_ist 9 16)]
         else Some [example_candle (at_ist 9 15), example_candle (at_ist 9 20)]),
      fetch_ohlc_1min_data = (\<lambda>hist. None),
      fetch_positions = (\<lambda>hist. []),
      get_option_instrument_key = (\<lambda>hist spot option_type. None)\<rparr>"

section \<open>Properties of the interval clock\<close>

lemma round_to_next_interval_aware:
  "tzoffset now_dt \<noteq> None \<Longrightarrow> round_to_next_interval interval_minutes now_dt = Inl TypeError"
  by (simp add: round_to_next_interval_def dt_sub_def combine_0915_def)

lemma round_to_next_interval_before_open:
  assumes "tzoffset now_dt = None" and "micros now_dt < market_open"
  shows "round_to_next_interval interval_minutes now_dt = Inr (combine_0915 now_dt)"
  using assms
  by (simp add: round_to_next_interval_def dt_sub_def combine_0915_def instant_def
      replace_microsecond_0_def market_open_def)

lemma round_to_next_interval_naive:
  assumes "tzoffset now_dt = None" and "market_open \<le> micros now_dt"
    and "interval_minutes \<noteq> 0" and "\<not> float_overflows (interval_minutes * 60)"
  shows "round_to_next_interval interval_minutes now_dt =
     (case dt_add_minutes (combine_0915 now_dt)
             (((micros now_dt - market_open) div (interval_minutes * 60 * 1000000) + 1)
                * interval_minutes) of
        Inl e \<Rightarrow> Inl e
      | Inr next_interval \<Rightarrow> Inr (replace_microsecond_0 next_interval))"
  using assms
  by (simp add: round_to_next_interval_def dt_sub_def combine_0915_def instant_def Let_def)

lemma dt_add_minutes_aligned:
  assumes "dt_add_minutes (combine_0915 d) m = Inr r"
  shows "micros r mod 60000000 = 0" and "replace_microsecond_0 r = r" and "tzoffset r = None"
proof -
  let ?t = "ordinal d * us_per_day + market_open + m * 60000000"
  have r: "r = \<lparr>tzoffset = None, ordinal = ?t div us_per_day, micros = ?t mod us_per_day\<rparr>"
    using assms by (auto simp: dt_add_minutes_def combine_0915_def Let_def split: if_splits)
  define k where "k = ordinal d * 1440 + 555 + m"
  have t: "?t = 60000000 * k"
    by (simp add: us_per_day_def market_open_def k_def)
  have "(60000000 * k) mod (60000000 * 1440) = 60000000 * (k mod 1440)"
    by (rule mult_mod_right [symmetric])
  then have "?t mod us_per_day = 60000000 * (k mod 1440)"
    unfolding t by (simp add: us_per_day_def)
  then have m: "micros r = 60000000 * (k mod 1440)"
    using r by simp
  show "micros r mod 60000000 = 0" using m by simp
  have "micros r mod 1000000 = 0" using m by simp
  then show "replace_microsecond_0 r = r" by (simp add: replace_microsecond_0_def)
  show "tzoffset r = None" using r by simp
qed

text \<open>
  C1. At a timezone-aware reference time, which is what every call site passes
  (\<^verbatim>\<open>datetime.datetime.now(ist)\<close> at lines 299, 336 and 482, the localized timestamp of the
  last main candle at line 300), the interval clock returns no boundary: the subtraction of
  the naive 09:15 origin raises \<^verbatim>\<open>TypeError\<close>. The input is 2024-01-01 10:00:00+05:30 with a
  5-minute interval.
\<close>

theorem C1_aware_reference_time_raises:
  "round_to_next_interval 5 \<lparr>tzoffset = Some 330, ordinal = 738886, micros = 36000000000\<rparr>
     = Inl TypeError"
  by (simp add: round_to_next_interval_def dt_sub_def combine_0915_def)

section \<open>Properties of the trend-following band\<close>


















section \<open>Properties of the signal evaluation\<close>

lemma endswith_last_two:
  "length suffix = 2 \<Longrightarrow> endswith s suffix \<longleftrightarrow> last_two s = suffix"
  by (auto simp: endswith_def last_two_def)

lemma exit_events_filter:
  "exit_events r positions = concat (map close_position (filter (exit_fires r) positions))"
  by (induction positions) simp_all

lemma exit_events_no_buy: "e \<in> set (exit_events r positions) \<Longrightarrow> \<not> is_order BUY e"
  by (induction positions) (auto simp: close_position_def)

lemma exit_events_no_signal:
  "Telegram BuySignalGenerated \<notin> set (exit_events r positions)"
  "Telegram SellSignalGenerated \<notin> set (exit_events r positions)"
  "FetchPositions \<notin> set (exit_events r positions)"
  by (induction positions) (auto simp: close_position_def)

lemma place_entry_no_fetch: "FetchPositions \<notin> set (place_entry br hist lots r ty)"
  by (simp add: place_entry_def split: option.splits)

lemma entry_events_no_fetch: "FetchPositions \<notin> set (entry_events br hist lots r positions)"
  by (simp add: entry_events_def place_entry_no_fetch)

lemma place_entry_no_sell: "e \<in> set (place_entry br hist lots r ty) \<Longrightarrow> \<not> is_order SELL e"
  by (auto simp: place_entry_def split: option.splits)

lemma entry_events_no_sell: "e \<in> set (entry_events br hist lots r positions) \<Longrightarrow> \<not> is_order SELL e"
  by (auto simp: entry_events_def dest: place_entry_no_sell split: if_splits)

lemma place_entry_no_signal:
  "Telegram m \<notin> set (place_entry br hist lots r ty)"
  by (simp add: place_entry_def split: option.splits)

text \<open>
  C4. In every evaluation cycle the buy-signal notification is sent exactly when
  adx > adxema, willr > -30, supertrend < close and macd > macd_signal; and when these
  conditions hold, an entry order is placed in the cycle only if the positions snapshot
  fetched in the cycle has no position with positive quantity and a trading symbol ending
  in CE.
\<close>

theorem C4_call_entry:
  "(Telegram BuySignalGenerated \<in> set (evaluate_signals br hist lots r) \<longleftrightarrow>
      latest_adx r > latest_adxema r \<and> latest_willr r > - 30 \<and>
      latest_supertrend r < close_price r \<and> latest_macd r > latest_macd_signal r)
   \<and> (buy_signal r \<longrightarrow>
        (\<exists>e \<in> set (evaluate_signals br hist lots r). is_order BUY e) \<longrightarrow>
        \<not> (\<exists>pos \<in> set (fetch_positions br hist).
              quantity pos > 0 \<and> endswith (tradingsymbol pos) ''CE''))"
proof -
  have sig: "Telegram BuySignalGenerated \<in> set (evaluate_signals br hist lots r) \<longleftrightarrow> buy_signal r"
    by (auto simp: evaluate_signals_def Let_def entry_events_def exit_events_no_signal place_entry_no_signal
        split: if_splits)
  have ord: "buy_signal r \<Longrightarrow> has_ce_position (fetch_positions br hist) \<Longrightarrow>
      e \<in> set (evaluate_signals br hist lots r) \<Longrightarrow> \<not> is_order BUY e" for e
    by (auto simp: evaluate_signals_def Let_def entry_events_def dest: exit_events_no_buy)
  show ?thesis
    using sig ord unfolding buy_signal_def has_ce_position_def by blast
qed


text \<open>
  The theorem on the call row with one open put position and two lots: the signal is
  sent, the order is placed, and no call position is open.
\<close>

theorem C4_call_entry_witness:
  "buy_signal call_row
   \<and> (\<exists>e \<in> set (evaluate_signals (example_broker [] None None [pe_position]) [] 2 call_row).
         is_order BUY e)
   \<and> \<not> (\<exists>pos \<in> set (fetch_positions (example_broker [] None None [pe_position]) []).
           quantity pos > 0 \<and> endswith (tradingsymbol pos) ''CE'')
   \<and> Telegram BuySignalGenerated
         \<in> set (evaluate_signals (example_broker [] None None [pe_position]) [] 2 call_row)"
  using C4_call_entry [of "example_broker [] None None [pe_position]" "[]" 2 call_row]
  by (simp add: buy_signal_def call_row_def evaluate_signals_def entry_events_def
      place_entry_def example_broker_def has_ce_position_def pe_position_def endswith_def)

text \<open>
  C5. For every indicator row and every positions snapshot: when the buy-call conditions
  hold, each of the three disjuncts of the call exit is false, so no position whose symbol
  ends in CE is closed; when the buy-put conditions hold, each of the three disjuncts of the
  put exit is false, so no position whose symbol ends in PE is closed; and when the buy-call
  conditions hold while the snapshot has a call position with positive quantity, no buy
  order is placed in the cycle.
\<close>

theorem C5_no_conflicting_exit:
  "(buy_signal r \<longrightarrow>
      \<not> (latest_willr r < - 70 \<and> latest_supertrend r > close_price r)
    \<and> \<not> (latest_willr r < - 70 \<and> latest_macd r < latest_macd_signal r)
    \<and> \<not> (latest_supertrend r > close_price r \<and> latest_macd r < latest_macd_signal r)
    \<and> (\<forall>pos. last_two (tradingsymbol pos) = ''CE'' \<longrightarrow> \<not> exit_fires r pos))
   \<and> (sell_signal r \<longrightarrow>
      \<not> (latest_willr r > - 30 \<and> latest_supertrend r < close_price r)
    \<and> \<not> (latest_willr r > - 30 \<and> latest_macd r > latest_macd_signal r)
    \<and> \<not> (latest_supertrend r < close_price r \<and> latest_macd r < latest_macd_signal r)
    \<and> (\<forall>pos. last_two (tradingsymbol pos) = ''PE'' \<longrightarrow> \<not> exit_fires r pos))
   \<and> (buy_signal r \<and> has_ce_position (fetch_positions br hist) \<longrightarrow>
        (\<forall>e \<in> set (evaluate_signals br hist lots r). \<not> is_order BUY e))"
proof -
  have a: "buy_signal r \<longrightarrow>
      \<not> (latest_willr r < - 70 \<and> latest_supertrend r > close_price r)
    \<and> \<not> (latest_willr r < - 70 \<and> latest_macd r < latest_macd_signal r)
    \<and> \<not> (latest_supertrend r > close_price r \<and> latest_macd r < latest_macd_signal r)
    \<and> (\<forall>pos. last_two (tradingsymbol pos) = ''CE'' \<longrightarrow> \<not> exit_fires r pos)"
    by (auto simp: buy_signal_def exit_fires_def exit_ce_def exit_pe_def)
  have b: "sell_signal r \<longrightarrow>
      \<not> (latest_willr r > - 30 \<and> latest_supertrend r < close_price r)
    \<and> \<not> (latest_willr r > - 30 \<and> latest_macd r > latest_macd_signal r)
    \<and> \<not> (latest_supertrend r < close_price r \<and> latest_macd r < latest_macd_signal r)
    \<and> (\<forall>pos. last_two (tradingsymbol pos) = ''PE'' \<longrightarrow> \<not> exit_fires r pos)"
    by (auto simp: sell_signal_def exit_fires_def exit_ce_def exit_pe_def)
  have c: "buy_signal r \<and> has_ce_position (fetch_positions br hist) \<longrightarrow>
        (\<forall>e \<in> set (evaluate_signals br hist lots r). \<not> is_order BUY e)"
    by (auto simp: evaluate_signals_def Let_def entry_events_def dest: exit_events_no_buy)
  show ?thesis using a b c by blast
qed

text \<open>
  The theorem on the call row and on the put row, and on a snapshot that holds a call
  position.
\<close>

theorem C5_no_conflicting_exit_witness:
  "buy_signal call_row \<and> \<not> exit_fires call_row ce_position
   \<and> sell_signal put_row \<and> \<not> exit_fires put_row pe_position
   \<and> has_ce_position (fetch_positions (example_broker [] None None [ce_position]) [])
   \<and> filter (is_order BUY)
         (evaluate_signals (example_broker [] None None [ce_position]) [] 2 call_row) = []"
  using C5_no_conflicting_exit [of call_row "example_broker [] None None [ce_position]" "[]" 2]
    C5_no_conflicting_exit [of put_row "example_broker [] None None [ce_position]" "[]" 2]
  by (simp add: buy_signal_def sell_signal_def call_row_def put_row_def last_two_def
      ce_position_def pe_position_def has_ce_position_def example_broker_def endswith_def
      filter_empty_conv)

text \<open>
  C7. For a position with positive quantity whose trading symbol ends in PE, the exit fires
  exactly when (willr > -30 and supertrend < close) or (willr > -30 and macd > macd_signal)
  or (supertrend < close and macd < macd_signal); it then sends the notification, places a
  SELL order at price 0 for the full quantity and updates the log.
\<close>

theorem C7_put_exit:
  assumes "endswith (tradingsymbol pos) ''PE''" and "quantity pos > 0"
  shows "(exit_fires r pos \<longleftrightarrow>
            (latest_willr r > - 30 \<and> latest_supertrend r < close_price r)
          \<or> (latest_willr r > - 30 \<and> latest_macd r > latest_macd_signal r)
          \<or> (latest_supertrend r < close_price r \<and> latest_macd r < latest_macd_signal r))
       \<and> exit_events r [pos] =
           (if (latest_willr r > - 30 \<and> latest_supertrend r < close_price r)
             \<or> (latest_willr r > - 30 \<and> latest_macd r > latest_macd_signal r)
             \<or> (latest_supertrend r < close_price r \<and> latest_macd r < latest_macd_signal r)
            then [Telegram (ExitTriggered (tradingsymbol pos)),
                  PlaceOrder (instrument_token pos) (quantity pos) SELL 0, UpdatePnl 2]
            else [])"
proof -
  have "last_two (tradingsymbol pos) = ''PE''"
    using assms(1) endswith_last_two [of "''PE''" "tradingsymbol pos"] by simp
  then show ?thesis
    using assms(2) by (simp add: exit_fires_def exit_ce_def exit_pe_def close_position_def)
qed

text \<open>
  The theorem on a row where willr is -50, so that only the third clause (supertrend below
  close, macd below its signal) holds: the put position is closed.
\<close>

theorem C7_put_exit_witness:
  "endswith (tradingsymbol pe_position) ''PE'' \<and> quantity pe_position > 0
   \<and> \<not> latest_willr third_clause_row > - 30
   \<and> latest_supertrend third_clause_row < close_price third_clause_row
   \<and> latest_macd third_clause_row < latest_macd_signal third_clause_row
   \<and> exit_fires third_clause_row pe_position
   \<and> exit_events third_clause_row [pe_position] =
       [Telegram (ExitTriggered ''NIFTY24JAN22000PE''), PlaceOrder ''NSE_FO|102'' 75 SELL 0,
        UpdatePnl 2]"
proof -
  have h: "endswith (tradingsymbol pe_position) ''PE''" "quantity pe_position > 0"
    by (simp_all add: pe_position_def endswith_def)
  show ?thesis
    using h C7_put_exit [OF h, of third_clause_row]
    by (simp add: third_clause_row_def pe_position_def close_position_def)
qed


lemma filter_sell_place_entry: "filter (is_order SELL) (place_entry br hist lots r ty) = []"
  by (simp add: place_entry_def split: option.splits)

lemma filter_sell_entry_events:
  "filter (is_order SELL) (entry_events br hist lots r positions) = []"
  by (simp add: entry_events_def filter_sell_place_entry)

lemma filter_sell_exit_events:
  "filter (is_order SELL) (exit_events r positions) =
     map (\<lambda>pos. PlaceOrder (instrument_token pos) (quantity pos) SELL 0)
       (filter (exit_fires r) positions)"
  by (induction positions) (simp_all add: close_position_def)

lemma filter_fetch_entry_events:
  "filter (\<lambda>e. e = FetchPositions) (entry_events br hist lots r positions) = []"
  using entry_events_no_fetch [of br hist lots r positions]
  by (auto simp: filter_empty_conv)

lemma filter_fetch_exit_events:
  "filter (\<lambda>e. e = FetchPositions) (exit_events r positions) = []"
  using exit_events_no_signal(3) [of r positions]
  by (auto simp: filter_empty_conv)

lemma resample_branch_events:
  "fst (resample_branch fr br interval lots hist now s) =
     UpdatePnl 1 #
       (let buf = candle_buffer (append_main_candles s (resample fr interval (live_buffer s)))
        in if length buf \<ge> 2 \<and> length (indicators fr buf) \<ge> 2
           then evaluate_signals br (hist @ [UpdatePnl 1]) lots (last (indicators fr buf))
           else [])"
  by (simp add: resample_branch_def Let_def)

text \<open>
  C9. In a resample cycle that reaches the evaluation (at least two buffered main candles
  and at least two indicator rows), the events of the cycle are the log update, one call of
  \<^verbatim>\<open>fetch_positions\<close>, the events of the entry decision and the events of the exit loop, in
  this order; \<^verbatim>\<open>fetch_positions\<close> is called exactly once, answered by the broker on the
  history before any event of the entry decision; and the SELL orders of the cycle are
  exactly those of the positions of this snapshot for which the exit fires, whatever the
  entry decision did.
\<close>

theorem C9_positions_snapshot:
  assumes "buf = candle_buffer (append_main_candles s (resample fr interval (live_buffer s)))"
    and "length buf \<ge> 2" and "length (indicators fr buf) \<ge> 2"
    and "snapshot = fetch_positions br (hist @ [UpdatePnl 1])"
    and "r = last (indicators fr buf)"
    and "evs = fst (resample_branch fr br interval lots hist now s)"
  shows "evs = [UpdatePnl 1, FetchPositions]
                 @ entry_events br (hist @ [UpdatePnl 1, FetchPositions]) lots r snapshot
                 @ exit_events r snapshot
       \<and> length (filter (\<lambda>e. e = FetchPositions) evs) = 1
       \<and> filter (is_order SELL) evs =
           map (\<lambda>pos. PlaceOrder (instrument_token pos) (quantity pos) SELL 0)
             (filter (exit_fires r) snapshot)"
proof -
  have evs: "evs = [UpdatePnl 1, FetchPositions]
                 @ entry_events br (hist @ [UpdatePnl 1, FetchPositions]) lots r snapshot
                 @ exit_events r snapshot"
    using assms by (simp add: resample_branch_events evaluate_signals_def Let_def)
  have one: "length (filter (\<lambda>e. e = FetchPositions) evs) = 1"
    unfolding evs by (simp add: filter_fetch_entry_events filter_fetch_exit_events)
  have sells: "filter (is_order SELL) evs =
           map (\<lambda>pos. PlaceOrder (instrument_token pos) (quantity pos) SELL 0)
             (filter (exit_fires r) snapshot)"
    unfolding evs by (simp add: filter_sell_entry_events filter_sell_exit_events)
  show ?thesis using evs one sells by blast
qed

lemma example_resample_branch:
  "fst (resample_branch (example_frames [example_candle (at_ist 9 25)] [put_row, call_row])
          (example_broker [] None None [pe_position]) 5 2 [] (at_ist 9 30) example_session) =
     [UpdatePnl 1, FetchPositions, Telegram BuySignalGenerated,
      GetOptionInstrumentKey 22000 ''CE'', PlaceOrder ''NSE_FO|100'' 150 BUY 22000,
      LogOrderToExcel ''BUY'' ''NSE_FO|100'' 22000 2 22000 ''CE'' 75 738911,
      Telegram (ExitTriggered ''NIFTY24JAN22000PE''), PlaceOrder ''NSE_FO|102'' 75 SELL 0,
      UpdatePnl 2]"
  by (simp add: resample_branch_events Let_def example_frames_def example_broker_def
      example_session_def append_main_candles_def deque_append_def example_candle_def
      at_ist_def instant_def us_per_day_def evaluate_signals_def entry_events_def
      buy_signal_def call_row_def has_ce_position_def pe_position_def endswith_def
      place_entry_def example_details_def exit_fires_def exit_ce_def exit_pe_def last_two_def
      close_position_def)

text \<open>
  The theorem on the example session at 09:30 with an open put position and the call row as
  the latest row: the cycle buys the call and closes the put of the snapshot; the only SELL
  order is the one for the put.
\<close>

theorem C9_positions_snapshot_witness:
  "length (candle_buffer (append_main_candles example_session [example_candle (at_ist 9 25)])) \<ge> 2
   \<and> length [put_row, call_row] \<ge> 2
   \<and> length (filter (\<lambda>e. e = FetchPositions)
        (fst (resample_branch (example_frames [example_candle (at_ist 9 25)] [put_row, call_row])
          (example_broker [] None None [pe_position]) 5 2 [] (at_ist 9 30) example_session))) = 1
   \<and> filter (is_order SELL)
        (fst (resample_branch (example_frames [example_candle (at_ist 9 25)] [put_row, call_row])
          (example_broker [] None None [pe_position]) 5 2 [] (at_ist 9 30) example_session))
       = [PlaceOrder ''NSE_FO|102'' 75 SELL 0]"
proof -
  let ?fr = "example_frames [example_candle (at_ist 9 25)] [put_row, call_row]"
  let ?br = "example_broker [] None None [pe_position]"
  let ?buf = "candle_buffer (append_main_candles example_session [example_candle (at_ist 9 25)])"
  have b: "?buf = candle_buffer (append_main_candles example_session
                     (resample ?fr 5 (live_buffer example_session)))"
    by (simp add: example_frames_def)
  have l: "length ?buf \<ge> 2"
    by (simp add: example_session_def append_main_candles_def deque_append_def Let_def)
  have i: "length (indicators ?fr ?buf) \<ge> 2"
    by (simp add: example_frames_def)
  note th = C9_positions_snapshot [where s = example_session and fr = ?fr and interval = 5
        and br = ?br and hist = "[]" and lots = 2 and now = "at_ist 9 30",
        OF b l i refl refl refl]
  have one: "length (filter (\<lambda>e. e = FetchPositions)
        (fst (resample_branch ?fr ?br 5 2 [] (at_ist 9 30) example_session))) = 1"
    using th [THEN conjunct2, THEN conjunct1] .
  have sells: "filter (is_order SELL)
        (fst (resample_branch ?fr ?br 5 2 [] (at_ist 9 30) example_session))
       = [PlaceOrder ''NSE_FO|102'' 75 SELL 0]"
    using th [THEN conjunct2, THEN conjunct2]
    by (simp add: example_frames_def example_broker_def call_row_def pe_position_def
        exit_fires_def exit_ce_def exit_pe_def last_two_def)
  show ?thesis using l one sells by simp
qed

section \<open>Properties of the live loop\<close>

lemma dt_ge_trans:
  "dt_ge c b = Inr True \<Longrightarrow> dt_ge b a = Inr True \<Longrightarrow> dt_ge c a = Inr True"
  by (auto simp: dt_ge_def split: if_splits)

lemma live_pass_fetch_failed:
  assumes "micros now < market_close"
    and "dt_ge now (next_interval_end_1min s) = Inr True"
    and "fetch_ohlc_1min_data br hist = None"
  shows "live_pass fr br interval lots hist now s =
           ([FetchOhlc1minData, Sleep 5], Inr (Continue, s))"
  using assms by (simp add: live_pass_def)

lemma append_main_candles_boundary:
  "next_interval_end_1min (append_main_candles s resampled) = next_interval_end_1min s"
  by (simp add: append_main_candles_def Let_def)

lemma resample_branch_boundary:
  "resample_branch fr br interval lots hist now s = (evs, Inr s') \<Longrightarrow>
   next_interval_end_1min s' = next_interval_end_1min s"
  by (auto simp: resample_branch_def Let_def append_main_candles_boundary split: sum.splits)

lemma resample_part_boundary:
  "resample_part fr br interval lots hist now evs0 s = (evs, Inr (oc, s')) \<Longrightarrow>
   next_interval_end_1min s' = next_interval_end_1min s"
  by (auto simp: resample_part_def dest: resample_branch_boundary
      split: sum.splits if_splits prod.splits)

lemma live_pass_fetch_succeeded:
  assumes "micros now < market_close"
    and "dt_ge now (next_interval_end_1min s) = Inr True"
    and "fetch_ohlc_1min_data br hist = Some candle"
    and "live_pass fr br interval lots hist now s = (evs, Inr (oc, s'))"
  shows "round_to_next_interval 1 now = Inr (next_interval_end_1min s')"
  using assms
  by (auto simp: live_pass_def dest: resample_part_boundary split: sum.splits)

text \<open>
  C10. If a pass before market close has reached the 1-minute boundary and the fetch of the
  latest 1-minute candle returns nothing, the pass consists of that fetch and a 5-second
  sleep and leaves the session as it was: no log update, no resampling, no indicator
  computation, no positions fetch and no order, whatever the resample boundary is.
\<close>

theorem C10_failed_fetch_skips_pass:
  assumes "micros now < market_close"
    and "dt_ge now (next_interval_end_1min s) = Inr True"
    and "fetch_ohlc_1min_data br hist = None"
  shows "live_pass fr br interval lots hist now s =
           ([FetchOhlc1minData, Sleep 5], Inr (Continue, s))"
  using assms by (rule live_pass_fetch_failed)

lemma example_boundaries_reached:
  "micros (at_ist 9 30) < market_close"
  "dt_ge (at_ist 9 30) (next_interval_end_1min example_session) = Inr True"
  "dt_ge (at_ist 9 30) (next_resample_interval_end example_session) = Inr True"
  "int (length (live_buffer example_session)) \<ge> 5"
  by (simp_all add: at_ist_def market_close_def dt_ge_def example_session_def)

text \<open>
  The theorem on the example session at 09:30, where the resample boundary is reached too
  and the live buffer holds the five candles the resample test asks for.
\<close>

theorem C10_failed_fetch_skips_pass_witness:
  "micros (at_ist 9 30) < market_close
   \<and> dt_ge (at_ist 9 30) (next_interval_end_1min example_session) = Inr True
   \<and> dt_ge (at_ist 9 30) (next_resample_interval_end example_session) = Inr True
   \<and> int (length (live_buffer example_session)) \<ge> 5
   \<and> fetch_ohlc_1min_data (example_broker [] None None [pe_position]) [] = None
   \<and> live_pass (example_frames [example_candle (at_ist 9 25)] [put_row, call_row])
        (example_broker [] None None [pe_position]) 5 2 [] (at_ist 9 30) example_session
       = ([FetchOhlc1minData, Sleep 5], Inr (Continue, example_session))"
proof -
  have f: "fetch_ohlc_1min_data (example_broker [] None None [pe_position]) [] = None"
    by (simp add: example_broker_def)
  show ?thesis
    using example_boundaries_reached f
      C10_failed_fetch_skips_pass [OF example_boundaries_reached(1,2) f]
    by simp
qed

text \<open>
  C3, as the claim states it, fails: on the example session at 09:30 the 1-minute boundary
  is reached, the fetch returns nothing, and after the pass the boundary is still 09:30.
\<close>

theorem C3_boundary_not_advanced_counterexample:
  "dt_ge (at_ist 9 30) (next_interval_end_1min example_session) = Inr True
   \<and> fetch_ohlc_1min_data (example_broker [] None None []) [] = None
   \<and> live_pass (example_frames [] []) (example_broker [] None None []) 5 2 []
        (at_ist 9 30) example_session
       = ([FetchOhlc1minData, Sleep 5], Inr (Continue, example_session))
   \<and> next_interval_end_1min example_session = at_ist 9 30"
proof -
  have f: "fetch_ohlc_1min_data (example_broker [] None None []) [] = None"
    by (simp add: example_broker_def)
  have b: "next_interval_end_1min example_session = at_ist 9 30"
    by (simp add: example_session_def)
  show ?thesis
    using example_boundaries_reached(2) f b
      live_pass_fetch_failed [OF example_boundaries_reached(1,2) f]
    by simp
qed

text \<open>
  C3, amended. Whenever a pass before market close reaches the 1-minute boundary: if the
  fetch returns nothing, the boundary and the rest of the session are left unchanged, the
  session is not aborted (the pass ends with a 5-second sleep and the loop goes on), and
  every later pass before market close starts with the fetch again; if the fetch returns a
  candle and the pass completes, the boundary after the pass is the one the interval clock
  computes from the time of the pass.
\<close>

theorem C3_boundary_advanced_only_on_success:
  assumes "micros now < market_close"
    and "dt_ge now (next_interval_end_1min s) = Inr True"
  shows "(fetch_ohlc_1min_data br hist = None \<longrightarrow>
            live_pass fr br interval lots hist now s =
              ([FetchOhlc1minData, Sleep 5], Inr (Continue, s))
          \<and> (\<forall>now'. micros now' < market_close \<longrightarrow> dt_ge now' now = Inr True \<longrightarrow>
                (\<exists>rest res. live_pass fr br interval lots (hist @ [FetchOhlc1minData, Sleep 5])
                               now' s = (FetchOhlc1minData # rest, res))))
       \<and> (\<forall>candle evs oc s'.
            fetch_ohlc_1min_data br hist = Some candle \<longrightarrow>
            live_pass fr br interval lots hist now s = (evs, Inr (oc, s')) \<longrightarrow>
            round_to_next_interval 1 now = Inr (next_interval_end_1min s'))"
proof -
  have retry: "\<exists>rest res. live_pass fr br interval lots h now' s = (FetchOhlc1minData # rest, res)"
    if "micros now' < market_close" and "dt_ge now' now = Inr True" for now' h
  proof -
    have "dt_ge now' (next_interval_end_1min s) = Inr True"
      using that(2) assms(2) by (rule dt_ge_trans)
    then show ?thesis
      using that(1)
      by (auto simp: live_pass_def resample_part_def split: option.splits sum.splits prod.splits)
  qed
  show ?thesis
    using live_pass_fetch_failed [OF assms] live_pass_fetch_succeeded [OF assms] retry
    by blast
qed

lemma naive_pass_example:
  "live_pass (example_frames [] [])
     (example_broker [] None (Some (example_candle (at_ist 9 29))) []) 5 2 []
     (at_naive 9 30) naive_session
   = ([FetchOhlc1minData, Sleep 5],
      Inr (Continue,
        naive_session\<lparr>live_buffer := live_buffer naive_session @ [example_candle (at_ist 9 29)],
          next_interval_end_1min := at_naive 9 31\<rparr>))"
  by (simp add: live_pass_def example_broker_def naive_session_def at_naive_def dt_ge_def
      instant_def us_per_day_def market_close_def round_to_next_interval_def dt_sub_def
      combine_0915_def market_open_def float_overflows_def dt_add_minutes_def max_ordinal_def
      replace_microsecond_0_def append_live_candle_def deque_append_def example_candle_def
      at_ist_def resample_part_def Let_def)

text \<open>
  The theorem twice. On the example session at 09:30 with a broker whose fetch returns
  nothing: nothing changes and the pass at 09:31 fetches again. On the session with naive
  boundaries at 09:30 with a broker that returns the candle of 09:29: the candle is appended
  and the boundary becomes 09:31, the value of the interval clock.
\<close>

theorem C3_boundary_advanced_only_on_success_witness:
  "micros (at_ist 9 30) < market_close
   \<and> dt_ge (at_ist 9 30) (next_interval_end_1min example_session) = Inr True
   \<and> fetch_ohlc_1min_data (example_broker [] None None []) [] = None
   \<and> live_pass (example_frames [] []) (example_broker [] None None []) 5 2 []
        (at_ist 9 30) example_session
       = ([FetchOhlc1minData, Sleep 5], Inr (Continue, example_session))
   \<and> micros (at_ist 9 31) < market_close
   \<and> dt_ge (at_ist 9 31) (at_ist 9 30) = Inr True
   \<and> (\<exists>rest res. live_pass (example_frames [] []) (example_broker [] None None []) 5 2
          ([] @ [FetchOhlc1minData, Sleep 5]) (at_ist 9 31) example_session
         = (FetchOhlc1minData # rest, res))
   \<and> micros (at_naive 9 30) < market_close
   \<and> dt_ge (at_naive 9 30) (next_interval_end_1min naive_session) = Inr True
   \<and> fetch_ohlc_1min_data (example_broker [] None (Some (example_candle (at_ist 9 29))) []) []
       = Some (example_candle (at_ist 9 29))
   \<and> round_to_next_interval 1 (at_naive 9 30) = Inr (at_naive 9 31)"
proof -
  let ?br = "example_broker [] None None []"
  let ?br' = "example_broker [] None (Some (example_candle (at_ist 9 29))) []"
  have f: "fetch_ohlc_1min_data ?br [] = None"
    by (simp add: example_broker_def)
  have f': "fetch_ohlc_1min_data ?br' [] = Some (example_candle (at_ist 9 29))"
    by (simp add: example_broker_def)
  have later: "micros (at_ist 9 31) < market_close" "dt_ge (at_ist 9 31) (at_ist 9 30) = Inr True"
    by (simp_all add: at_ist_def market_close_def dt_ge_def instant_def)
  have n: "micros (at_naive 9 30) < market_close"
    "dt_ge (at_naive 9 30) (next_interval_end_1min naive_session) = Inr True"
    by (simp_all add: at_naive_def market_close_def dt_ge_def naive_session_def)
  note fail = C3_boundary_advanced_only_on_success [OF example_boundaries_reached(1,2),
      where br = ?br and hist = "[]" and fr = "example_frames [] []" and interval = 5
        and lots = 2, THEN conjunct1, rule_format, OF f]
  note succ = C3_boundary_advanced_only_on_success [OF n,
      where br = ?br' and hist = "[]" and fr = "example_frames [] []" and interval = 5
        and lots = 2, THEN conjunct2, rule_format, OF f' naive_pass_example]
  have retry: "\<exists>rest res. live_pass (example_frames [] []) ?br 5 2
          ([] @ [FetchOhlc1minData, Sleep 5]) (at_ist 9 31) example_session
         = (FetchOhlc1minData # rest, res)"
    using fail [THEN conjunct2, rule_format, OF later] .
  have clock: "round_to_next_interval 1 (at_naive 9 30) = Inr (at_naive 9 31)"
    using succ by simp
  show ?thesis
    using example_boundaries_reached(1,2) f fail [THEN conjunct1] later retry n f' clock
    by blast
qed

section \<open>Properties of the buffers and of the initialization\<close>

lemma deque_append_drop: "\<exists>k \<le> length buf. deque_append buf x = drop k (buf @ [x])"
proof -
  have "Suc (length buf) - 2000 \<le> length buf"
    by simp
  moreover have "deque_append buf x = drop (Suc (length buf) - 2000) (buf @ [x])"
    by (simp add: deque_append_def)
  ultimately show ?thesis by blast
qed

lemma increasing_drop:
  "sorted_wrt (<) (map f xs) \<Longrightarrow> sorted_wrt (<) (map f (drop k xs))"
  using sorted_wrt_drop [of "(<)" "map f xs" k] by (simp add: drop_map)

lemma deque_append_not_empty: "deque_append buf x \<noteq> []"
  by (simp add: deque_append_def Let_def)

lemma foldl_deque_append_not_empty:
  "buf \<noteq> [] \<or> xs \<noteq> [] \<Longrightarrow> foldl deque_append buf xs \<noteq> []"
  by (induction xs arbitrary: buf) (auto simp: deque_append_not_empty)

lemma deque_append_append:
  assumes j: "j \<le> length buf" "deque_append buf x = drop j (buf @ [x])"
  shows "deque_append buf x @ xs = drop j (buf @ x # xs)"
proof -
  have "drop j (buf @ x # xs) = drop j buf @ x # xs"
    using j(1) by simp
  moreover have "drop j (buf @ [x]) = drop j buf @ [x]"
    using j(1) by simp
  ultimately show ?thesis
    by (simp only: j(2) append_assoc append_Cons append_Nil)
qed


lemma foldl_deque_append_drop: "\<exists>k. foldl deque_append buf xs = drop k (buf @ xs)"
proof (induction xs arbitrary: buf)
  case Nil
  have "foldl deque_append buf [] = drop 0 (buf @ [])" by simp
  then show ?case by (rule exI)
next
  case (Cons x xs)
  from deque_append_drop [of buf x]
  obtain j where j: "j \<le> length buf" "deque_append buf x = drop j (buf @ [x])"
    by (elim exE conjE)
  from Cons.IH [of "deque_append buf x"]
  obtain k where k: "foldl deque_append (deque_append buf x) xs = drop k (deque_append buf x @ xs)"
    by (elim exE)
  have "deque_append buf x @ xs = drop j (buf @ x # xs)"
    using j by (rule deque_append_append)
  then have "foldl deque_append buf (x # xs) = drop k (drop j (buf @ x # xs))"
    using k by (simp only: foldl_Cons)
  then have "foldl deque_append buf (x # xs) = drop (k + j) (buf @ x # xs)"
    by (simp only: drop_drop)
  then show ?case by (rule exI)
qed

lemma increasing_le_last:
  "sorted_wrt (<) (map f buf) \<Longrightarrow> y \<in> set buf \<Longrightarrow> (f y :: int) \<le> f (last buf)"
  by (induction buf) (auto simp: less_imp_le)

text \<open>The guard of the live append (line 330): a candle not newer than the tail is dropped.\<close>

lemma append_live_candle_rejects:
  "live_buffer s \<noteq> [] \<Longrightarrow>
   candle_datetime candle \<le> candle_datetime (last (live_buffer s)) \<Longrightarrow>
   append_live_candle s candle = s"
  by (simp add: append_live_candle_def)

text \<open>The live append keeps the timestamps of the live buffer strictly increasing.\<close>

lemma append_live_candle_increasing:
  assumes "sorted_wrt (<) (map candle_datetime (live_buffer s))"
  shows "sorted_wrt (<) (map candle_datetime (live_buffer (append_live_candle s candle)))"
proof (cases "live_buffer s = [] \<or> candle_datetime candle > candle_datetime (last (live_buffer s))")
  case False
  then show ?thesis using assms by (simp add: append_live_candle_def)
next
  case True
  from deque_append_drop [of "live_buffer s" candle]
  obtain k where k: "deque_append (live_buffer s) candle = drop k (live_buffer s @ [candle])"
    by (elim exE conjE)
  have "candle_datetime y < candle_datetime candle" if "y \<in> set (live_buffer s)" for y
  proof -
    have "live_buffer s \<noteq> []" using that by auto
    then have "candle_datetime (last (live_buffer s)) < candle_datetime candle"
      using True by simp
    moreover have "candle_datetime y \<le> candle_datetime (last (live_buffer s))"
      using assms that by (rule increasing_le_last)
    ultimately show ?thesis by simp
  qed
  then have "sorted_wrt (<) (map candle_datetime (live_buffer s @ [candle]))"
    using assms by (simp add: sorted_wrt_append)
  then have "sorted_wrt (<) (map candle_datetime (drop k (live_buffer s @ [candle])))"
    by (rule increasing_drop)
  then have "sorted_wrt (<) (map candle_datetime (deque_append (live_buffer s) candle))"
    by (simp only: k)
  then show ?thesis using True by (simp add: append_live_candle_def)
qed

text \<open>
  The append of the resampled candles (lines 355 to 366) keeps the timestamps of the main
  buffer strictly increasing and \<^verbatim>\<open>prev_time\<close> at the timestamp of its tail, when the
  resampled frame is in increasing order of time, as \<^verbatim>\<open>pandas\<close> returns it.
\<close>

lemma append_main_candles_increasing:
  assumes "sorted_wrt (<) (map candle_datetime (candle_buffer s))"
    and "\<forall>y \<in> set (candle_buffer s). candle_datetime y \<le> prev_time s"
    and "sorted_wrt (<) (map candle_datetime resampled)"
  shows "sorted_wrt (<) (map candle_datetime (candle_buffer (append_main_candles s resampled)))"
    and "\<forall>y \<in> set (candle_buffer (append_main_candles s resampled)).
           candle_datetime y \<le> prev_time (append_main_candles s resampled)"
proof -
  define new where "new = filter (\<lambda>c. candle_datetime c > prev_time s) resampled"
  have new_sorted: "sorted_wrt (<) (map candle_datetime new)"
    using assms(3) by (simp add: new_def sorted_wrt_map sorted_wrt_filter)
  have above: "\<forall>y \<in> set (candle_buffer s). \<forall>c \<in> set new. candle_datetime y < candle_datetime c"
    using assms(2) by (fastforce simp: new_def)
  have all_sorted: "sorted_wrt (<) (map candle_datetime (candle_buffer s @ new))"
    using assms(1) new_sorted above by (simp add: sorted_wrt_append)
  from foldl_deque_append_drop [of "candle_buffer s" new]
  obtain k where k: "foldl deque_append (candle_buffer s) new = drop k (candle_buffer s @ new)"
    by (elim exE)
  have buf: "candle_buffer (append_main_candles s resampled) = drop k (candle_buffer s @ new)"
    using k by (auto simp: append_main_candles_def Let_def new_def)
  show "sorted_wrt (<) (map candle_datetime (candle_buffer (append_main_candles s resampled)))"
    using all_sorted unfolding buf by (rule increasing_drop)
  show "\<forall>y \<in> set (candle_buffer (append_main_candles s resampled)).
           candle_datetime y \<le> prev_time (append_main_candles s resampled)"
  proof (cases "new = []")
    case True
    then have "append_main_candles s resampled = s \<or>
               append_main_candles s resampled = s\<lparr>candle_buffer := candle_buffer s\<rparr>"
      by (auto simp: append_main_candles_def Let_def new_def)
    then show ?thesis using assms(2) by auto
  next
    case False
    then have pt: "prev_time (append_main_candles s resampled) = candle_datetime (last new)"
      by (auto simp: append_main_candles_def Let_def new_def)
    have "last (candle_buffer s @ new) = last new" using False by simp
    then have "\<forall>y \<in> set (candle_buffer s @ new). candle_datetime y \<le> candle_datetime (last new)"
      using increasing_le_last [OF all_sorted] by metis
    then show ?thesis
      unfolding buf pt using in_set_dropD by fast
  qed
qed

lemma live_loop_not_aborted:
  "snd (live_loop fr br interval lots hist clock s) \<noteq> Aborted"
  by (induction clock arbitrary: hist s) (auto split: prod.splits sum.splits outcome.splits)

lemma initial_data_no_order:
  "e \<in> set (fst (initial_data fr br interval today now)) \<Longrightarrow> \<not> is_order sd e"
  by (auto simp: initial_data_def Let_def split: if_splits option.splits)

lemma start_trading_session_aborted:
  assumes "snd (start_trading_session fr br interval lots today now_a now_b now_c clock) = Aborted"
  shows "fst (start_trading_session fr br interval lots today now_a now_b now_c clock) =
           fst (initial_data fr br interval today now_a)"
proof (cases "initial_data fr br interval today now_a")
  case (Pair evs r)
  show ?thesis
  proof (cases r)
    case None
    then show ?thesis using Pair by (simp add: start_trading_session_def)
  next
    case (Some bufs)
    then have "snd (start_trading_session fr br interval lots today now_a now_b now_c clock) \<noteq> Aborted"
      using Pair
      by (auto simp: start_trading_session_def Let_def live_loop_not_aborted
          split: prod.splits sum.splits option.splits)
    then show ?thesis using assms by simp
  qed
qed

text \<open>
  With a timezone-aware clock reading at line 298, which \<^verbatim>\<open>datetime.datetime.now(ist)\<close>
  always is, a session that passes the initialization checks ends at line 299 with the
  \<^verbatim>\<open>TypeError\<close> of the interval clock: it never reaches the live loop.
\<close>

lemma start_trading_session_aware_clock:
  assumes "tzoffset now_c \<noteq> None"
  shows "snd (start_trading_session fr br interval lots today now_a now_b now_c clock)
           \<in> {Aborted, Raised TypeError}"
  using round_to_next_interval_aware [OF assms, of 1]
  by (auto simp: start_trading_session_def initial_boundaries_def Let_def
      split: prod.splits option.splits)

text \<open>
  C8. If the initial historical fetch returns an empty series, the session logs the
  placeholder row, fetches, sends the error notification and returns: these three are all
  its events, and it ends as aborted. If the fetch returns candles but fewer than two
  indicator rows are left after the first indicator computation, the session sends the
  error notification and returns as aborted as well, after the historical fetch and at
  most the intraday fetch. No session that ends as aborted has placed an order.
\<close>

theorem C8_initialization_aborts:
  "(fetch_historical_data br [LogOrderToExcel ''first'' ''first'' 0 0 0 ''first'' 0 today] = [] \<longrightarrow>
      start_trading_session fr br interval lots today now_a now_b now_c clock =
        ([LogOrderToExcel ''first'' ''first'' 0 0 0 ''first'' 0 today,
          FetchHistoricalData interval, Telegram HistoricalAbort], Aborted))
   \<and> (fetch_historical_data br [LogOrderToExcel ''first'' ''first'' 0 0 0 ''first'' 0 today] \<noteq> [] \<longrightarrow>
      length (indicators fr (foldl deque_append []
        (fetch_historical_data br [LogOrderToExcel ''first'' ''first'' 0 0 0 ''first'' 0 today]))) < 2 \<longrightarrow>
      start_trading_session fr br interval lots today now_a now_b now_c clock =
        ([LogOrderToExcel ''first'' ''first'' 0 0 0 ''first'' 0 today,
          FetchHistoricalData interval]
         @ (if micros now_a > market_open then [FetchIntradayData interval] else [])
         @ [Telegram NotEnoughData], Aborted))
   \<and> (snd (start_trading_session fr br interval lots today now_a now_b now_c clock) = Aborted \<longrightarrow>
        (\<forall>e \<in> set (fst (start_trading_session fr br interval lots today now_a now_b now_c clock)).
           \<not> is_order BUY e \<and> \<not> is_order SELL e))"
proof -
  let ?log = "LogOrderToExcel ''first'' ''first'' 0 0 0 ''first'' 0 today"
  let ?h = "fetch_historical_data br [?log]"
  have empty: "start_trading_session fr br interval lots today now_a now_b now_c clock =
      ([?log, FetchHistoricalData interval, Telegram HistoricalAbort], Aborted)" if "?h = []"
    using that by (simp add: start_trading_session_def initial_data_def)
  have few: "start_trading_session fr br interval lots today now_a now_b now_c clock =
      ([?log, FetchHistoricalData interval]
        @ (if micros now_a > market_open then [FetchIntradayData interval] else [])
        @ [Telegram NotEnoughData], Aborted)"
    if h: "?h \<noteq> []" and l: "length (indicators fr (foldl deque_append [] ?h)) < 2"
  proof -
    have "foldl deque_append [] ?h \<noteq> []"
      using h by (simp add: foldl_deque_append_not_empty)
    then show ?thesis
      using h l by (simp add: start_trading_session_def initial_data_def Let_def)
  qed
  have none: "\<not> is_order BUY e \<and> \<not> is_order SELL e"
    if "snd (start_trading_session fr br interval lots today now_a now_b now_c clock) = Aborted"
      and "e \<in> set (fst (start_trading_session fr br interval lots today now_a now_b now_c clock))"
    for e
    using that start_trading_session_aborted [OF that(1)] initial_data_no_order by metis
  show ?thesis using empty few none by blast
qed

text \<open>
  The theorem on a broker without historical data, and on a broker with two historical
  candles at 10:00 when the indicator computation leaves a single row.
\<close>

theorem C8_initialization_aborts_witness:
  "fetch_historical_data (example_broker [] None None [])
       [LogOrderToExcel ''first'' ''first'' 0 0 0 ''first'' 0 738886] = []
   \<and> start_trading_session (example_frames [] [put_row, call_row])
        (example_broker [] None None []) 5 2 738886 (at_ist 10 0) (at_ist 10 0) (at_ist 10 0) []
       = ([LogOrderToExcel ''first'' ''first'' 0 0 0 ''first'' 0 738886,
           FetchHistoricalData 5, Telegram HistoricalAbort], Aborted)
   \<and> fetch_historical_data intraday_broker
       [LogOrderToExcel ''first'' ''first'' 0 0 0 ''first'' 0 738886] \<noteq> []
   \<and> length (indicators (example_frames [] [call_row]) (foldl deque_append []
        (fetch_historical_data intraday_broker
           [LogOrderToExcel ''first'' ''first'' 0 0 0 ''first'' 0 738886]))) < 2
   \<and> start_trading_session (example_frames [] [call_row]) intraday_broker 5 2 738886
        (at_ist 10 0) (at_ist 10 0) (at_ist 10 0) []
       = ([LogOrderToExcel ''first'' ''first'' 0 0 0 ''first'' 0 738886,
           FetchHistoricalData 5, FetchIntradayData 5, Telegram NotEnoughData], Aborted)
   \<and> filter (\<lambda>e. is_order BUY e \<or> is_order SELL e)
        (fst (start_trading_session (example_frames [] [call_row]) intraday_broker 5 2 738886
          (at_ist 10 0) (at_ist 10 0) (at_ist 10 0) [])) = []"
proof -
  let ?log = "LogOrderToExcel ''first'' ''first'' 0 0 0 ''first'' 0 738886"
  have e: "fetch_historical_data (example_broker [] None None []) [?log] = []"
    by (simp add: example_broker_def)
  have h: "fetch_historical_data intraday_broker [?log] \<noteq> []"
    by (simp add: intraday_broker_def)
  have l: "length (indicators (example_frames [] [call_row]) (foldl deque_append []
        (fetch_historical_data intraday_broker [?log]))) < 2"
    by (simp add: example_frames_def)
  have o: "micros (at_ist 10 0) > market_open"
    by (simp add: at_ist_def market_open_def)
  note a = C8_initialization_aborts [where br = "example_broker [] None None []"
      and fr = "example_frames [] [put_row, call_row]" and today = 738886 and interval = 5
      and lots = 2 and now_a = "at_ist 10 0" and now_b = "at_ist 10 0" and now_c = "at_ist 10 0"
      and clock = "[]", THEN conjunct1, rule_format, OF e]
  note b = C8_initialization_aborts [where br = intraday_broker
      and fr = "example_frames [] [call_row]" and today = 738886 and interval = 5
      and lots = 2 and now_a = "at_ist 10 0" and now_b = "at_ist 10 0" and now_c = "at_ist 10 0"
      and clock = "[]", THEN conjunct2, THEN conjunct1, rule_format, OF h l]
  have b': "start_trading_session (example_frames [] [call_row]) intraday_broker 5 2 738886
        (at_ist 10 0) (at_ist 10 0) (at_ist 10 0) []
       = ([?log, FetchHistoricalData 5, FetchIntradayData 5, Telegram NotEnoughData], Aborted)"
    using b o by simp
  have c: "filter (\<lambda>e. is_order BUY e \<or> is_order SELL e)
        (fst (start_trading_session (example_frames [] [call_row]) intraday_broker 5 2 738886
          (at_ist 10 0) (at_ist 10 0) (at_ist 10 0) [])) = []"
    by (simp add: b')
  show ?thesis using e a h l b' c by blast
qed

lemma example_initial_data:
  "initial_data (example_frames [] [put_row, call_row]) intraday_broker 5 738886 (at_ist 10 0) =
     ([LogOrderToExcel ''first'' ''first'' 0 0 0 ''first'' 0 738886, FetchHistoricalData 5,
       FetchIntradayData 5],
      Some ([example_candle ((at_ist 15 20)\<lparr>ordinal := 738885\<rparr>),
             example_candle ((at_ist 15 25)\<lparr>ordinal := 738885\<rparr>)],
            [example_candle (at_ist 9 15), example_candle (at_ist 9 20)]))"
  by (simp add: initial_data_def intraday_broker_def example_frames_def deque_append_def
      Let_def at_ist_def market_open_def)

lemma example_populate_live_1min:
  "populate_live_1min intraday_broker
     [LogOrderToExcel ''first'' ''first'' 0 0 0 ''first'' 0 738886, FetchHistoricalData 5,
      FetchIntradayData 5]
     (at_ist 10 0) [example_candle (at_ist 9 15), example_candle (at_ist 9 20)] =
     ([FetchIntradayData 1],
      [example_candle (at_ist 9 15), example_candle (at_ist 9 20),
       example_candle (at_ist 9 15), example_candle (at_ist 9 16)])"
  by (simp add: populate_live_1min_def intraday_broker_def deque_append_def Let_def
      at_ist_def market_open_def)

text \<open>
  C2. The initialization of a session started at 10:00 with a 5-minute interval: lines 235
  to 243 put the 5-minute candles of 09:15 and 09:20 into the live buffer, lines 286 to 294
  append the 1-minute candles of 09:15 and 09:16 behind them. The candle of 09:15 is
  appended although its timestamp is not above the tail's 09:20, and the timestamps of the
  live buffer are not strictly increasing when the live loop would start.
\<close>

theorem C2_initial_population_not_increasing:
  "initial_data (example_frames [] [put_row, call_row]) intraday_broker 5 738886 (at_ist 10 0) =
     ([LogOrderToExcel ''first'' ''first'' 0 0 0 ''first'' 0 738886, FetchHistoricalData 5,
       FetchIntradayData 5],
      Some ([example_candle ((at_ist 15 20)\<lparr>ordinal := 738885\<rparr>),
             example_candle ((at_ist 15 25)\<lparr>ordinal := 738885\<rparr>)],
            [example_candle (at_ist 9 15), example_candle (at_ist 9 20)]))
   \<and> populate_live_1min intraday_broker
       [LogOrderToExcel ''first'' ''first'' 0 0 0 ''first'' 0 738886, FetchHistoricalData 5,
        FetchIntradayData 5]
       (at_ist 10 0) [example_candle (at_ist 9 15), example_candle (at_ist 9 20)] =
       ([FetchIntradayData 1],
        [example_candle (at_ist 9 15), example_candle (at_ist 9 20),
         example_candle (at_ist 9 15), example_candle (at_ist 9 16)])
   \<and> candle_datetime (example_candle (at_ist 9 15)) \<le> candle_datetime (example_candle (at_ist 9 20))
   \<and> \<not> sorted_wrt (<) (map candle_datetime
         [example_candle (at_ist 9 15), example_candle (at_ist 9 20),
          example_candle (at_ist 9 15), example_candle (at_ist 9 16)])"
proof -
  have "candle_datetime (example_candle (at_ist 9 15)) \<le> candle_datetime (example_candle (at_ist 9 20))"
    by (simp add: example_candle_def instant_def at_ist_def)
  moreover have "\<not> sorted_wrt (<) (map candle_datetime
         [example_candle (at_ist 9 15), example_candle (at_ist 9 20),
          example_candle (at_ist 9 15), example_candle (at_ist 9 16)])"
    by (simp add: example_candle_def instant_def at_ist_def)
  ultimately show ?thesis
    using example_initial_data example_populate_live_1min by simp
qed

text \<open>
  The same session as a whole: the initialization ends at line 299 with the
  \<^verbatim>\<open>TypeError\<close> of the interval clock, the clock readings being timezone-aware.
\<close>

lemma example_session_raises:
  "start_trading_session (example_frames [] [put_row, call_row]) intraday_broker 5 2 738886
     (at_ist 10 0) (at_ist 10 0) (at_ist 10 0) clock =
     ([LogOrderToExcel ''first'' ''first'' 0 0 0 ''first'' 0 738886, FetchHistoricalData 5,
       FetchIntradayData 5, FetchIntradayData 1], Raised TypeError)"
proof -
  have "round_to_next_interval 1 (at_ist 10 0) = Inl TypeError"
    by (rule round_to_next_interval_aware) (simp add: at_ist_def)
  then show ?thesis
    by (simp add: start_trading_session_def example_initial_data example_populate_live_1min
        initial_boundaries_def)
qed


end
